theory Spec2Isabelle
  imports Main
begin

section \<open>Data model of \<open>script_parser.py\<close>\<close>

text \<open>
  Class \<open>ScriptElement\<close>: five attributes. The constructor takes \<open>type\<close> and defaults
  every other argument to Python's \<open>None\<close>, which is \<open>None\<close> of an option type here.
  \<open>original_line_num\<close> holds the loop counter \<open>line_number\<close>, which starts at 0 and is
  only ever incremented, so it is a natural number.
\<close>

record ScriptElement =
  type :: string
  "text" :: "string option"
  character_name :: "string option"
  dialogue_text :: "string option"
  original_line_num :: "nat option"

text \<open>
  A paragraph of the decoded document, as the loop reads it: the two attributes
  \<open>paragraph_type\<close> and \<open>plain_text\<close> of the external library's paragraph objects.
\<close>

record fdx_paragraph =
  paragraph_type :: string
  plain_text :: string

text \<open>
  An exception that reaches the \<open>except\<close> clauses of \<open>parse_file\<close>: a
  \<open>FileNotFoundError\<close>, or any other \<open>Exception\<close>, carrying the text of \<open>str(e)\<close>.
\<close>

datatype raised =
    FileNotFoundError
  | Exception string

text \<open>
  What the external library does inside the \<open>try\<close> block, seen from \<open>parse_file\<close>. The
  call \<open>read_fdx(script_path)\<close> raises; or it returns \<open>None\<close>; or it returns an object
  without a \<open>paragraphs\<close> attribute (carrying the text of \<open>dir(screenplay)\<close>); or it
  returns a document whose paragraphs are all read; or it returns a document of which the
  loop reads the given paragraphs and then meets an exception, raised by the iteration over
  \<open>screenplay.paragraphs\<close> or by reading \<open>paragraph_type\<close> or \<open>plain_text\<close> of the next
  paragraph (lines 73, 75, 76), that is before that iteration changes anything.
\<close>

datatype read_fdx_result =
    Raises raised
  | Returns_None
  | Returns_without_paragraphs string
  | Returns_screenplay "fdx_paragraph list"
  | Returns_screenplay_raising "fdx_paragraph list" raised

text \<open>
  The mutable state \<open>parse_file\<close> works on: the two attributes of the \<open>ScriptParser\<close>
  object (\<open>self.parsed_elements\<close>, \<open>self._current_character_element\<close>) and the lines
  written by \<open>print\<close> so far.
\<close>

record ScriptParser =
  parsed_elements :: "ScriptElement list"
  current_character_element :: "ScriptElement option"
  stdout :: "string list"

section \<open>Operations\<close>

text \<open>Python's \<open>str\<close> on a non-negative integer, as the f-string formats \<open>line_number\<close>.\<close>

fun str_nat :: "nat \<Rightarrow> string" where
  "str_nat n =
     (if n < 10 then [''0123456789'' ! n]
      else str_nat (n div 10) @ [''0123456789'' ! (n mod 10)])"

declare str_nat.simps [simp del]

text \<open>The apostrophe that the messages put around quoted text.\<close>

definition apostrophe :: string where
  "apostrophe = [CHR 0x27]"

text \<open>The message of line 114.\<close>

definition dialogue_warning :: "nat \<Rightarrow> string \<Rightarrow> string" where
  "dialogue_warning line_number paragraph_text =
     ''Warning: Dialogue found without preceding character at line '' @ str_nat line_number
       @ '': '' @ apostrophe @ paragraph_text @ apostrophe"

text \<open>
  The body of the \<open>for\<close> loop (lines 75 to 145), for the already incremented
  \<open>line_number\<close>. The test \<open>if self._current_character_element:\<close> is on an object of a class
  that defines neither \<open>__bool__\<close> nor \<open>__len__\<close>, so it is true exactly when the
  attribute is not \<open>None\<close>.
\<close>

definition loop_body :: "nat \<Rightarrow> fdx_paragraph \<Rightarrow> ScriptParser \<Rightarrow> ScriptParser" where
  "loop_body line_number fdx_paragraph self =
    (let paragraph_type = paragraph_type fdx_paragraph;
         paragraph_text = plain_text fdx_paragraph
     in
      if paragraph_type = ''Scene Heading'' then
        self\<lparr>parsed_elements := parsed_elements self @
               [\<lparr>type = ''scene_heading'', text = Some paragraph_text, character_name = None,
                 dialogue_text = None, original_line_num = Some line_number\<rparr>],
             current_character_element := None\<rparr>
      else if paragraph_type = ''Character'' then
        (let new_character_element =
               \<lparr>type = ''character'', text = None, character_name = Some paragraph_text,
                dialogue_text = None, original_line_num = Some line_number\<rparr>
         in self\<lparr>parsed_elements := parsed_elements self @ [new_character_element],
                 current_character_element := Some new_character_element\<rparr>)
      else if paragraph_type = ''Parenthetical'' then
        self\<lparr>parsed_elements := parsed_elements self @
               [\<lparr>type = ''parenthetical'', text = Some paragraph_text, character_name = None,
                 dialogue_text = None, original_line_num = Some line_number\<rparr>]\<rparr>
      else if paragraph_type = ''Dialogue'' then
        (case current_character_element self of
           Some c \<Rightarrow>
             self\<lparr>parsed_elements := parsed_elements self @
                    [\<lparr>type = ''dialogue'', text = Some paragraph_text,
                      character_name = character_name c,
                      dialogue_text = Some paragraph_text,
                      original_line_num = Some line_number\<rparr>],
                  current_character_element := None\<rparr>
         | None \<Rightarrow>
             self\<lparr>stdout := stdout self @ [dialogue_warning line_number paragraph_text],
                  parsed_elements := parsed_elements self @
                    [\<lparr>type = ''action'', text = Some paragraph_text, character_name = None,
                      dialogue_text = None, original_line_num = Some line_number\<rparr>],
                  current_character_element := None\<rparr>)
      else if paragraph_type = ''Action'' then
        self\<lparr>parsed_elements := parsed_elements self @
               [\<lparr>type = ''action'', text = Some paragraph_text, character_name = None,
                 dialogue_text = None, original_line_num = Some line_number\<rparr>],
             current_character_element := None\<rparr>
      else if paragraph_type = ''Transition'' then
        self\<lparr>parsed_elements := parsed_elements self @
               [\<lparr>type = ''transition'', text = Some paragraph_text, character_name = None,
                 dialogue_text = None, original_line_num = Some line_number\<rparr>],
             current_character_element := None\<rparr>
      else
        self\<lparr>parsed_elements := parsed_elements self @
               [\<lparr>type = ''action'', text = Some paragraph_text, character_name = None,
                 dialogue_text = None, original_line_num = Some line_number\<rparr>],
             current_character_element := None\<rparr>)"

text \<open>
  The \<open>for\<close> loop of lines 73 to 145 over the paragraphs still to come; the first argument
  is the value of \<open>line_number\<close> before the next iteration increments it.
\<close>

fun paragraph_loop :: "nat \<Rightarrow> fdx_paragraph list \<Rightarrow> ScriptParser \<Rightarrow> ScriptParser" where
  "paragraph_loop line_number [] self = self"
| "paragraph_loop line_number (fdx_paragraph # rest) self =
     paragraph_loop (line_number + 1) rest (loop_body (line_number + 1) fdx_paragraph self)"

text \<open>
  The two \<open>except\<close> clauses (lines 149 to 155): one \<open>print\<close> and a fresh empty list. They
  leave the attributes of the object as they are when the exception arrives.
\<close>

definition except_clauses ::
  "string \<Rightarrow> raised \<Rightarrow> ScriptParser \<Rightarrow> ScriptElement list \<times> ScriptParser" where
  "except_clauses script_path e self =
    (case e of
       FileNotFoundError \<Rightarrow>
         ([], self\<lparr>stdout := stdout self @
                [''Error: Script file not found at '' @ script_path]\<rparr>)
     | Exception str_e \<Rightarrow>
         ([], self\<lparr>stdout := stdout self @
                [''An error occurred during FDX script parsing: '' @ str_e]\<rparr>))"

text \<open>
  \<open>ScriptParser.parse_file\<close>. The third argument is what the library does inside the
  \<open>try\<close> block. The result is the returned list together with the object and the output
  afterwards. Both attributes are reset before \<open>read_fdx\<close> is called (lines 56, 57). The
  \<open>try\<close> block encloses the loop, so the \<open>except\<close> clauses also handle an exception raised
  after some paragraphs have been processed.
\<close>

definition parse_file ::
  "ScriptParser \<Rightarrow> string \<Rightarrow> read_fdx_result \<Rightarrow> ScriptElement list \<times> ScriptParser" where
  "parse_file self script_path read_fdx =
    (let self = self\<lparr>parsed_elements := [], current_character_element := None\<rparr>
     in case read_fdx of
          Raises e \<Rightarrow> except_clauses script_path e self
        | Returns_None \<Rightarrow>
            ([], self\<lparr>stdout := stdout self @
                   [''Error: read_fdx returned None. Cannot proceed with parsing.'']\<rparr>)
        | Returns_without_paragraphs attributes \<Rightarrow>
            ([], self\<lparr>stdout := stdout self @
                   [''DEBUG: WARNING: 'screenplay' object DOES NOT have 'paragraphs' attribute.'',
                    ''DEBUG: Available attributes on 'screenplay' object: '' @ attributes]\<rparr>)
        | Returns_screenplay paragraphs \<Rightarrow>
            (let self = paragraph_loop 0 paragraphs self in (parsed_elements self, self))
        | Returns_screenplay_raising paragraphs e \<Rightarrow>
            except_clauses script_path e (paragraph_loop 0 paragraphs self))"

text \<open>A freshly constructed parser (\<open>__init__\<close>) in a process that has printed nothing.\<close>

definition ScriptParser_init :: ScriptParser where
  "ScriptParser_init = \<lparr>parsed_elements = [], current_character_element = None, stdout = []\<rparr>"

section \<open>Auxiliary notions for the proofs\<close>

text \<open>The element that an iteration appends.\<close>

definition emitted :: "nat \<Rightarrow> fdx_paragraph \<Rightarrow> ScriptParser \<Rightarrow> ScriptElement" where
  "emitted n p s = last (parsed_elements (loop_body n p s))"

text \<open>
  Every \<open>dialogue\<close> element of a list is preceded by a \<open>character\<close> element with the same
  character name, with only \<open>parenthetical\<close> elements in between.
\<close>

definition attributed :: "ScriptElement list \<Rightarrow> bool" where
  "attributed es \<longleftrightarrow>
     (\<forall>pre d post. es = pre @ d # post \<and> type d = ''dialogue'' \<longrightarrow>
        (\<exists>pre' c ps. pre = pre' @ c # ps \<and> type c = ''character''
            \<and> character_name c = character_name d
            \<and> (\<forall>e\<in>set ps. type e = ''parenthetical'')))"

text \<open>
  The current character, when set, is a \<open>character\<close> element of the list that only
  \<open>parenthetical\<close> elements follow.
\<close>

definition tracks :: "ScriptElement list \<Rightarrow> ScriptElement option \<Rightarrow> bool" where
  "tracks es cur \<longleftrightarrow>
     (\<forall>c. cur = Some c \<longrightarrow>
        (\<exists>pre ps. es = pre @ c # ps \<and> type c = ''character''
            \<and> (\<forall>e\<in>set ps. type e = ''parenthetical'')))"

text \<open>The invariant of the loop.\<close>

definition loop_inv :: "ScriptParser \<Rightarrow> bool" where
  "loop_inv s \<longleftrightarrow>
     tracks (parsed_elements s) (current_character_element s) \<and> attributed (parsed_elements s)"

text \<open>How the type of an emitted element depends on the kind of its paragraph.\<close>

definition kind_of :: "fdx_paragraph \<Rightarrow> ScriptElement \<Rightarrow> bool" where
  "kind_of p e \<longleftrightarrow>
     (type e = ''parenthetical'' \<longleftrightarrow> paragraph_type p = ''Parenthetical'')
     \<and> (type e = ''character'' \<longleftrightarrow> paragraph_type p = ''Character'')
     \<and> (paragraph_type p = ''Character'' \<longrightarrow> character_name e = Some (plain_text p))
     \<and> (type e = ''dialogue'' \<longrightarrow> paragraph_type p = ''Dialogue'')"

section \<open>One iteration of the loop, branch by branch\<close>

lemma loop_body_Scene_Heading:
  "paragraph_type p = ''Scene Heading'' \<Longrightarrow>
   loop_body n p s =
     s\<lparr>parsed_elements := parsed_elements s @
          [\<lparr>type = ''scene_heading'', text = Some (plain_text p), character_name = None,
            dialogue_text = None, original_line_num = Some n\<rparr>],
       current_character_element := None\<rparr>"
  by (simp add: loop_body_def Let_def)

lemma loop_body_Character:
  "paragraph_type p = ''Character'' \<Longrightarrow>
   loop_body n p s =
     s\<lparr>parsed_elements := parsed_elements s @
          [\<lparr>type = ''character'', text = None, character_name = Some (plain_text p),
            dialogue_text = None, original_line_num = Some n\<rparr>],
       current_character_element :=
          Some \<lparr>type = ''character'', text = None, character_name = Some (plain_text p),
            dialogue_text = None, original_line_num = Some n\<rparr>\<rparr>"
  by (simp add: loop_body_def Let_def)

lemma loop_body_Parenthetical:
  "paragraph_type p = ''Parenthetical'' \<Longrightarrow>
   loop_body n p s =
     s\<lparr>parsed_elements := parsed_elements s @
          [\<lparr>type = ''parenthetical'', text = Some (plain_text p), character_name = None,
            dialogue_text = None, original_line_num = Some n\<rparr>]\<rparr>"
  by (simp add: loop_body_def Let_def)

lemma loop_body_Dialogue_Some:
  "paragraph_type p = ''Dialogue'' \<Longrightarrow> current_character_element s = Some c \<Longrightarrow>
   loop_body n p s =
     s\<lparr>parsed_elements := parsed_elements s @
          [\<lparr>type = ''dialogue'', text = Some (plain_text p), character_name = character_name c,
            dialogue_text = Some (plain_text p), original_line_num = Some n\<rparr>],
       current_character_element := None\<rparr>"
  by (simp add: loop_body_def Let_def)

lemma loop_body_Dialogue_None:
  "paragraph_type p = ''Dialogue'' \<Longrightarrow> current_character_element s = None \<Longrightarrow>
   loop_body n p s =
     s\<lparr>stdout := stdout s @ [dialogue_warning n (plain_text p)],
       parsed_elements := parsed_elements s @
          [\<lparr>type = ''action'', text = Some (plain_text p), character_name = None,
            dialogue_text = None, original_line_num = Some n\<rparr>],
       current_character_element := None\<rparr>"
  by (simp add: loop_body_def Let_def)

lemma loop_body_Action:
  "paragraph_type p = ''Action'' \<Longrightarrow>
   loop_body n p s =
     s\<lparr>parsed_elements := parsed_elements s @
          [\<lparr>type = ''action'', text = Some (plain_text p), character_name = None,
            dialogue_text = None, original_line_num = Some n\<rparr>],
       current_character_element := None\<rparr>"
  by (simp add: loop_body_def Let_def)

lemma loop_body_Transition:
  "paragraph_type p = ''Transition'' \<Longrightarrow>
   loop_body n p s =
     s\<lparr>parsed_elements := parsed_elements s @
          [\<lparr>type = ''transition'', text = Some (plain_text p), character_name = None,
            dialogue_text = None, original_line_num = Some n\<rparr>],
       current_character_element := None\<rparr>"
  by (simp add: loop_body_def Let_def)

lemma loop_body_unrecognized:
  "paragraph_type p \<notin> {''Scene Heading'', ''Character'', ''Parenthetical'', ''Dialogue'',
      ''Action'', ''Transition''} \<Longrightarrow>
   loop_body n p s =
     s\<lparr>parsed_elements := parsed_elements s @
          [\<lparr>type = ''action'', text = Some (plain_text p), character_name = None,
            dialogue_text = None, original_line_num = Some n\<rparr>],
       current_character_element := None\<rparr>"
  by (simp add: loop_body_def Let_def)
text \<open>Every iteration appends exactly one element, which carries the current \<open>line_number\<close>.\<close>

lemma loop_body_parsed_elements:
  "parsed_elements (loop_body n p s) = parsed_elements s @ [emitted n p s]"
  by (simp add: emitted_def loop_body_def Let_def split: option.split)

lemma emitted_line_num: "original_line_num (emitted n p s) = Some n"
  by (simp add: emitted_def loop_body_def Let_def split: option.split)

lemma emitted_kind_of: "kind_of p (emitted n p s)"
  by (simp add: kind_of_def emitted_def loop_body_def Let_def split: option.split)


section \<open>The whole loop\<close>

lemma parse_file_screenplay:
  "parse_file s path (Returns_screenplay ps) =
     (let s' = paragraph_loop 0 ps (s\<lparr>parsed_elements := [], current_character_element := None\<rparr>)
      in (parsed_elements s', s'))"
  by (simp add: parse_file_def)

lemma paragraph_loop_length:
  "length (parsed_elements (paragraph_loop n ps s)) = length (parsed_elements s) + length ps"
  by (induction ps arbitrary: n s) (simp_all add: loop_body_parsed_elements)

lemma paragraph_loop_line_nums:
  "map original_line_num (parsed_elements (paragraph_loop n ps s)) =
     map original_line_num (parsed_elements s) @ map Some [Suc n ..< Suc n + length ps]"
proof (induction ps arbitrary: n s)
  case Nil
  show ?case by simp
next
  case (Cons p ps)
  have "[Suc n ..< Suc (Suc n) + length ps] = Suc n # [Suc (Suc n) ..< Suc (Suc n) + length ps]"
    by (rule upt_conv_Cons) simp
  then show ?case
    by (simp add: Cons.IH loop_body_parsed_elements emitted_line_num del: upt_Suc)
qed

section \<open>The loop invariant\<close>

lemma attributed_Nil: "attributed []"
  by (simp add: attributed_def)

lemma attributed_snoc:
  assumes es: "attributed es"
    and e: "type e = ''dialogue'' \<Longrightarrow>
            \<exists>pre' c ps. es = pre' @ c # ps \<and> type c = ''character''
              \<and> character_name c = character_name e \<and> (\<forall>x\<in>set ps. type x = ''parenthetical'')"
  shows "attributed (es @ [e])"
  unfolding attributed_def
proof (intro allI impI)
  fix pre d post
  assume h: "es @ [e] = pre @ d # post \<and> type d = ''dialogue''"
  show "\<exists>pre' c ps. pre = pre' @ c # ps \<and> type c = ''character''
          \<and> character_name c = character_name d \<and> (\<forall>e\<in>set ps. type e = ''parenthetical'')"
  proof (cases post rule: rev_cases)
    case Nil
    with h have "es = pre" and "e = d" by simp_all
    with h e show ?thesis by simp
  next
    case (snoc post' x)
    with h have "es = pre @ d # post'" by simp
    with h es show ?thesis unfolding attributed_def by blast
  qed
qed

lemma attributed_snoc_other:
  "attributed es \<Longrightarrow> type e \<noteq> ''dialogue'' \<Longrightarrow> attributed (es @ [e])"
  by (rule attributed_snoc) simp_all

lemma tracks_None: "tracks es None"
  by (simp add: tracks_def)

lemma tracks_new: "type c = ''character'' \<Longrightarrow> tracks (es @ [c]) (Some c)"
  unfolding tracks_def by (intro allI impI, rule exI [of _ es], rule exI [of _ "[]"]) simp

lemma tracks_parenthetical:
  assumes "tracks es cur" and "type e = ''parenthetical''"
  shows "tracks (es @ [e]) cur"
  unfolding tracks_def
proof (intro allI impI)
  fix c assume "cur = Some c"
  with assms(1) obtain pre ps where
    "es = pre @ c # ps" "type c = ''character''" "\<forall>x\<in>set ps. type x = ''parenthetical''"
    unfolding tracks_def by blast
  with assms(2) have "es @ [e] = pre @ c # (ps @ [e]) \<and> type c = ''character''
      \<and> (\<forall>x\<in>set (ps @ [e]). type x = ''parenthetical'')"
    by simp
  then show "\<exists>pre ps. es @ [e] = pre @ c # ps \<and> type c = ''character''
      \<and> (\<forall>x\<in>set ps. type x = ''parenthetical'')"
    by blast
qed

lemma loop_body_inv:
  assumes inv: "loop_inv s"
  shows "loop_inv (loop_body n p s)"
proof -
  from inv have tr: "tracks (parsed_elements s) (current_character_element s)"
    and at: "attributed (parsed_elements s)"
    by (simp_all add: loop_inv_def)
  consider (sh) "paragraph_type p = ''Scene Heading''"
    | (ch) "paragraph_type p = ''Character''"
    | (pa) "paragraph_type p = ''Parenthetical''"
    | (dn) "paragraph_type p = ''Dialogue''" "current_character_element s = None"
    | (ds) c where "paragraph_type p = ''Dialogue''" "current_character_element s = Some c"
    | (ac) "paragraph_type p = ''Action''"
    | (tr) "paragraph_type p = ''Transition''"
    | (un) "paragraph_type p \<notin> {''Scene Heading'', ''Character'', ''Parenthetical'',
              ''Dialogue'', ''Action'', ''Transition''}"
    by (cases "current_character_element s") auto
  then show ?thesis
  proof cases
    case sh
    then show ?thesis
      by (simp add: loop_body_Scene_Heading loop_inv_def tracks_None attributed_snoc_other [OF at])
  next
    case ch
    then show ?thesis
      by (simp add: loop_body_Character loop_inv_def tracks_new attributed_snoc_other [OF at])
  next
    case pa
    then show ?thesis
      by (simp add: loop_body_Parenthetical loop_inv_def tracks_parenthetical [OF tr]
          attributed_snoc_other [OF at])
  next
    case dn
    then show ?thesis
      by (simp add: loop_body_Dialogue_None loop_inv_def tracks_None attributed_snoc_other [OF at])
  next
    case ds
    let ?d = "\<lparr>type = ''dialogue'', text = Some (plain_text p),
           character_name = character_name c, dialogue_text = Some (plain_text p),
           original_line_num = Some n\<rparr>"
    from tr ds(2) obtain pre ps where c:
      "parsed_elements s = pre @ c # ps \<and> type c = ''character''
         \<and> (\<forall>x\<in>set ps. type x = ''parenthetical'')"
      unfolding tracks_def by blast
    have "attributed (parsed_elements s @ [?d])"
    proof (rule attributed_snoc [OF at])
      from c have "parsed_elements s = pre @ c # ps \<and> type c = ''character''
         \<and> character_name c = character_name ?d \<and> (\<forall>x\<in>set ps. type x = ''parenthetical'')"
        by simp
      then show "\<exists>pre' c' ps'. parsed_elements s = pre' @ c' # ps' \<and> type c' = ''character''
         \<and> character_name c' = character_name ?d \<and> (\<forall>x\<in>set ps'. type x = ''parenthetical'')"
        by blast
    qed
    with ds show ?thesis
      by (simp add: loop_body_Dialogue_Some loop_inv_def tracks_None)
  next
    case ac
    then show ?thesis
      by (simp add: loop_body_Action loop_inv_def tracks_None attributed_snoc_other [OF at])
  next
    case tr
    then show ?thesis
      by (simp add: loop_body_Transition loop_inv_def tracks_None attributed_snoc_other [OF at])
  next
    case un
    then show ?thesis
      by (simp add: loop_body_unrecognized loop_inv_def tracks_None attributed_snoc_other [OF at])
  qed
qed

lemma paragraph_loop_inv: "loop_inv s \<Longrightarrow> loop_inv (paragraph_loop n ps s)"
  by (induction ps arbitrary: n s) (simp_all add: loop_body_inv)

lemma parse_file_inv:
  "loop_inv (snd (parse_file self script_path (Returns_screenplay paragraphs)))"
proof -
  have "loop_inv (self\<lparr>parsed_elements := [], current_character_element := None\<rparr>)"
    by (simp add: loop_inv_def tracks_None attributed_Nil)
  then have "loop_inv (paragraph_loop 0 paragraphs
      (self\<lparr>parsed_elements := [], current_character_element := None\<rparr>))"
    by (rule paragraph_loop_inv)
  then show ?thesis
    by (simp add: parse_file_screenplay Let_def)
qed

lemma paragraph_loop_kinds:
  "\<exists>new. parsed_elements (paragraph_loop n ps s) = parsed_elements s @ new
         \<and> list_all2 kind_of ps new"
proof (induction ps arbitrary: n s)
  case Nil
  show ?case by simp
next
  case (Cons p ps)
  from Cons.IH [of "n + 1" "loop_body (n + 1) p s"] obtain new where
    "parsed_elements (paragraph_loop (n + 1) ps (loop_body (n + 1) p s))
       = parsed_elements (loop_body (n + 1) p s) @ new" "list_all2 kind_of ps new"
    by blast
  then have "parsed_elements (paragraph_loop n (p # ps) s)
       = parsed_elements s @ (emitted (n + 1) p s # new)
     \<and> list_all2 kind_of (p # ps) (emitted (n + 1) p s # new)"
    by (simp add: loop_body_parsed_elements emitted_kind_of)
  then show ?case by blast
qed

lemma parse_file_kinds:
  "list_all2 kind_of paragraphs (fst (parse_file self script_path (Returns_screenplay paragraphs)))"
  using paragraph_loop_kinds [of 0 paragraphs
      "self\<lparr>parsed_elements := [], current_character_element := None\<rparr>"]
  by (auto simp add: parse_file_screenplay Let_def)


lemma parse_file_attributed:
  "attributed (fst (parse_file self script_path (Returns_screenplay paragraphs)))"
  using parse_file_inv [of self script_path paragraphs]
  by (simp add: loop_inv_def parse_file_screenplay Let_def)

lemma parse_file_tracks:
  "tracks (fst (parse_file self script_path (Returns_screenplay paragraphs)))
     (current_character_element (snd (parse_file self script_path (Returns_screenplay paragraphs))))"
  using parse_file_inv [of self script_path paragraphs]
  by (simp add: loop_inv_def parse_file_screenplay Let_def)

section \<open>The element of each paragraph\<close>

text \<open>
  The element at position \<open>i\<close> of the result is the one that the iteration on paragraph
  \<open>i\<close> appends, entered in the state that the paragraphs before it leave.
\<close>

lemma paragraph_loop_append:
  "paragraph_loop n (xs @ ys) s = paragraph_loop (n + length xs) ys (paragraph_loop n xs s)"
  by (induction xs arbitrary: n s) simp_all

lemma paragraph_loop_take_Suc:
  assumes "i < length ps"
  shows "paragraph_loop n (take (Suc i) ps) s
           = loop_body (n + i + 1) (ps ! i) (paragraph_loop n (take i ps) s)"
proof -
  from assms have "take (Suc i) ps = take i ps @ [ps ! i]"
    by (rule take_Suc_conv_app_nth)
  with assms show ?thesis
    by (simp add: paragraph_loop_append)
qed

lemma paragraph_loop_nth:
  assumes "i < length ps"
  shows "parsed_elements (paragraph_loop n ps s) ! (length (parsed_elements s) + i)
           = emitted (n + i + 1) (ps ! i) (paragraph_loop n (take i ps) s)"
proof -
  let ?s' = "paragraph_loop n (take (Suc i) ps) s"
  from assms have "ps = take (Suc i) ps @ drop (Suc i) ps"
    by simp
  then have "paragraph_loop n ps s = paragraph_loop (n + length (take (Suc i) ps)) (drop (Suc i) ps) ?s'"
    by (metis paragraph_loop_append)
  with paragraph_loop_kinds [of "n + length (take (Suc i) ps)" "drop (Suc i) ps" ?s']
  obtain new where new: "parsed_elements (paragraph_loop n ps s) = parsed_elements ?s' @ new"
    by auto
  have "parsed_elements ?s' = parsed_elements (paragraph_loop n (take i ps) s)
          @ [emitted (n + i + 1) (ps ! i) (paragraph_loop n (take i ps) s)]"
    by (simp only: paragraph_loop_take_Suc [OF assms] loop_body_parsed_elements)
  moreover have "length (parsed_elements (paragraph_loop n (take i ps) s))
      = length (parsed_elements s) + i"
    using assms by (simp add: paragraph_loop_length)
  ultimately show ?thesis
    using new by (simp add: nth_append)
qed

lemma parse_file_nth:
  assumes "i < length paragraphs"
  shows "fst (parse_file self script_path (Returns_screenplay paragraphs)) ! i
           = emitted (i + 1) (paragraphs ! i)
               (snd (parse_file self script_path (Returns_screenplay (take i paragraphs))))"
  using paragraph_loop_nth [OF assms, of 0
      "self\<lparr>parsed_elements := [], current_character_element := None\<rparr>"]
  by (simp add: parse_file_screenplay Let_def)

lemma parse_file_take_Suc:
  assumes "i < length paragraphs"
  shows "snd (parse_file self script_path (Returns_screenplay (take (Suc i) paragraphs)))
           = loop_body (i + 1) (paragraphs ! i)
               (snd (parse_file self script_path (Returns_screenplay (take i paragraphs))))"
  using paragraph_loop_take_Suc [OF assms, of 0
      "self\<lparr>parsed_elements := [], current_character_element := None\<rparr>"]
  by (simp add: parse_file_screenplay Let_def)

lemma emitted_unrecognized:
  "paragraph_type p \<notin> {''Scene Heading'', ''Character'', ''Parenthetical'', ''Dialogue'',
      ''Action'', ''Transition''} \<Longrightarrow>
   emitted n p s = \<lparr>type = ''action'', text = Some (plain_text p), character_name = None,
            dialogue_text = None, original_line_num = Some n\<rparr>"
  by (simp add: emitted_def loop_body_unrecognized)

section \<open>Dialogue and its speaker\<close>

text \<open>
  Claim C1. In the result for any decoded document, every element of type \<open>dialogue\<close>, at
  position \<open>i\<close>, has an earlier position \<open>j\<close> whose paragraph is of kind \<open>Character\<close> and
  whose element is of type \<open>character\<close>; the dialogue's character name is the name of that
  element, which is the text of that paragraph; and every position strictly between \<open>j\<close> and
  \<open>i\<close> holds a \<open>parenthetical\<close> element of a \<open>Parenthetical\<close> paragraph, so no Scene
  Heading, Action, Transition, Dialogue or unrecognized paragraph lies in between. (When the
  document cannot be read the result is empty and has no dialogue element.)
\<close>

theorem dialogue_attributed_to_emitted_character:
  assumes i: "i < length paragraphs"
    and d: "type (fst (parse_file self script_path (Returns_screenplay paragraphs)) ! i)
              = ''dialogue''"
  shows "\<exists>j<i.
           type (fst (parse_file self script_path (Returns_screenplay paragraphs)) ! j)
             = ''character''
         \<and> paragraph_type (paragraphs ! j) = ''Character''
         \<and> character_name (fst (parse_file self script_path (Returns_screenplay paragraphs)) ! j)
             = Some (plain_text (paragraphs ! j))
         \<and> character_name (fst (parse_file self script_path (Returns_screenplay paragraphs)) ! i)
             = Some (plain_text (paragraphs ! j))
         \<and> (\<forall>k. j < k \<and> k < i \<longrightarrow>
               type (fst (parse_file self script_path (Returns_screenplay paragraphs)) ! k)
                 = ''parenthetical''
               \<and> paragraph_type (paragraphs ! k) = ''Parenthetical'')"
proof -
  let ?out = "fst (parse_file self script_path (Returns_screenplay paragraphs))"
  have len: "length ?out = length paragraphs"
    by (simp add: parse_file_screenplay Let_def paragraph_loop_length)
  have kinds: "list_all2 kind_of paragraphs ?out"
    by (rule parse_file_kinds)
  have kind: "kind_of (paragraphs ! m) (?out ! m)" if "m < length paragraphs" for m
    using kinds that by (rule list_all2_nthD)
  from i len have "?out = take i ?out @ ?out ! i # drop (Suc i) ?out"
    by (simp add: id_take_nth_drop)
  with d have "?out = take i ?out @ ?out ! i # drop (Suc i) ?out \<and> type (?out ! i) = ''dialogue''"
    by simp
  with parse_file_attributed [of self script_path paragraphs]
  obtain pre' c ps where pc: "take i ?out = pre' @ c # ps" and c: "type c = ''character''"
    and cn: "character_name c = character_name (?out ! i)"
    and ps: "\<forall>e\<in>set ps. type e = ''parenthetical''"
    unfolding attributed_def by blast
  define j where "j = length pre'"
  have "length (take i ?out) = i"
    using i len by simp
  with pc have ji: "i = j + 1 + length ps"
    by (simp add: j_def)
  have nth: "?out ! m = (pre' @ c # ps) ! m" if "m < i" for m
    using that pc nth_take [of m i ?out] by simp
  have outj: "?out ! j = c"
    using nth [of j] ji by (simp add: j_def)
  have between: "?out ! k \<in> set ps" if "j < k" "k < i" for k
  proof -
    from that ji have "(pre' @ c # ps) ! k = ps ! (k - j - 1)" and "k - j - 1 < length ps"
      by (simp_all add: nth_append j_def)
    with nth [OF that(2)] show ?thesis by simp
  qed
  from ji i have j: "j < i" "j < length paragraphs"
    by simp_all
  from kind [OF j(2)] c outj
  have pj: "paragraph_type (paragraphs ! j) = ''Character''"
    and nj: "character_name (?out ! j) = Some (plain_text (paragraphs ! j))"
    by (simp_all add: kind_of_def)
  have "type (?out ! k) = ''parenthetical'' \<and> paragraph_type (paragraphs ! k) = ''Parenthetical''"
    if "j < k \<and> k < i" for k
  proof -
    from that between ps have t: "type (?out ! k) = ''parenthetical''"
      by blast
    from that i have "k < length paragraphs"
      by simp
    from kind [OF this] t show ?thesis
      by (simp add: kind_of_def)
  qed
  with j(1) c outj pj nj cn show ?thesis
    by (intro exI [of _ j]) simp
qed

theorem dialogue_attributed_to_emitted_character_witness:
  "(2::nat) < length [\<lparr>paragraph_type = ''Character'', plain_text = ''BOB''\<rparr>,
            \<lparr>paragraph_type = ''Parenthetical'', plain_text = ''(smiling)''\<rparr>,
            \<lparr>paragraph_type = ''Dialogue'', plain_text = ''Hi.''\<rparr>]
   \<and> type (fst (parse_file ScriptParser_init ''a.fdx'' (Returns_screenplay
           [\<lparr>paragraph_type = ''Character'', plain_text = ''BOB''\<rparr>,
            \<lparr>paragraph_type = ''Parenthetical'', plain_text = ''(smiling)''\<rparr>,
            \<lparr>paragraph_type = ''Dialogue'', plain_text = ''Hi.''\<rparr>])) ! 2) = ''dialogue''
   \<and> (\<exists>j<2.
         type (fst (parse_file ScriptParser_init ''a.fdx'' (Returns_screenplay
           [\<lparr>paragraph_type = ''Character'', plain_text = ''BOB''\<rparr>,
            \<lparr>paragraph_type = ''Parenthetical'', plain_text = ''(smiling)''\<rparr>,
            \<lparr>paragraph_type = ''Dialogue'', plain_text = ''Hi.''\<rparr>])) ! j) = ''character''
       \<and> character_name (fst (parse_file ScriptParser_init ''a.fdx'' (Returns_screenplay
           [\<lparr>paragraph_type = ''Character'', plain_text = ''BOB''\<rparr>,
            \<lparr>paragraph_type = ''Parenthetical'', plain_text = ''(smiling)''\<rparr>,
            \<lparr>paragraph_type = ''Dialogue'', plain_text = ''Hi.''\<rparr>])) ! 2)
           = Some (plain_text ([\<lparr>paragraph_type = ''Character'', plain_text = ''BOB''\<rparr>,
            \<lparr>paragraph_type = ''Parenthetical'', plain_text = ''(smiling)''\<rparr>,
            \<lparr>paragraph_type = ''Dialogue'', plain_text = ''Hi.''\<rparr>] ! j)))"
proof -
  let ?ps = "[\<lparr>paragraph_type = ''Character'', plain_text = ''BOB''\<rparr>,
            \<lparr>paragraph_type = ''Parenthetical'', plain_text = ''(smiling)''\<rparr>,
            \<lparr>paragraph_type = ''Dialogue'', plain_text = ''Hi.''\<rparr>]"
  have i: "(2::nat) < length ?ps"
    by simp
  have d: "type (fst (parse_file ScriptParser_init ''a.fdx'' (Returns_screenplay ?ps)) ! 2)
      = ''dialogue''"
    by (simp add: parse_file_screenplay loop_body_Character loop_body_Parenthetical
        loop_body_Dialogue_Some)
  from dialogue_attributed_to_emitted_character [OF i d] i d show ?thesis
    by blast
qed





section \<open>Parentheticals and unrecognized kinds\<close>



text \<open>
  Claim C8. An iteration on a paragraph whose kind is none of Scene Heading, Character,
  Parenthetical, Dialogue, Action, Transition appends an \<open>action\<close> element with the
  paragraph's text unchanged and clears the current character; so it does for the kind
  "Shot", whatever the text. In the result of \<open>parse_file\<close> for any decoded document, the
  element at the position of such a paragraph is that \<open>action\<close> element, with the
  paragraph's text and its 1-based index, and the current character is empty once the
  document has been processed up to and including that paragraph. A document with the
  single paragraph "Shot" returns exactly one \<open>action\<close> element with the text; and a
  Dialogue after Character "BOB" and a "Shot" is no longer attributed to BOB.
\<close>

theorem unrecognized_kind_is_action:
  "(paragraph_type p \<notin> {''Scene Heading'', ''Character'', ''Parenthetical'', ''Dialogue'',
        ''Action'', ''Transition''} \<longrightarrow>
      loop_body n p s =
        s\<lparr>parsed_elements := parsed_elements s @
             [\<lparr>type = ''action'', text = Some (plain_text p), character_name = None,
               dialogue_text = None, original_line_num = Some n\<rparr>],
          current_character_element := None\<rparr>)
   \<and> loop_body n \<lparr>paragraph_type = ''Shot'', plain_text = t\<rparr> s =
        s\<lparr>parsed_elements := parsed_elements s @
             [\<lparr>type = ''action'', text = Some t, character_name = None,
               dialogue_text = None, original_line_num = Some n\<rparr>],
          current_character_element := None\<rparr>
   \<and> (i < length paragraphs
        \<and> paragraph_type (paragraphs ! i) \<notin> {''Scene Heading'', ''Character'',
              ''Parenthetical'', ''Dialogue'', ''Action'', ''Transition''} \<longrightarrow>
        fst (parse_file self script_path (Returns_screenplay paragraphs)) ! i =
          \<lparr>type = ''action'', text = Some (plain_text (paragraphs ! i)), character_name = None,
            dialogue_text = None, original_line_num = Some (i + 1)\<rparr>
        \<and> current_character_element
            (snd (parse_file self script_path (Returns_screenplay (take (Suc i) paragraphs))))
            = None)
   \<and> parse_file self script_path (Returns_screenplay
          [\<lparr>paragraph_type = ''Shot'', plain_text = t\<rparr>]) =
       ([\<lparr>type = ''action'', text = Some t, character_name = None,
           dialogue_text = None, original_line_num = Some 1\<rparr>],
        self\<lparr>parsed_elements :=
               [\<lparr>type = ''action'', text = Some t, character_name = None,
                  dialogue_text = None, original_line_num = Some 1\<rparr>],
             current_character_element := None\<rparr>)
   \<and> fst (parse_file self script_path (Returns_screenplay
          [\<lparr>paragraph_type = ''Character'', plain_text = ''BOB''\<rparr>,
           \<lparr>paragraph_type = ''Shot'', plain_text = ''CLOSE ON BOB''\<rparr>,
           \<lparr>paragraph_type = ''Dialogue'', plain_text = ''Hi.''\<rparr>])) =
       [\<lparr>type = ''character'', text = None, character_name = Some ''BOB'',
          dialogue_text = None, original_line_num = Some 1\<rparr>,
        \<lparr>type = ''action'', text = Some ''CLOSE ON BOB'', character_name = None,
          dialogue_text = None, original_line_num = Some 2\<rparr>,
        \<lparr>type = ''action'', text = Some ''Hi.'', character_name = None,
          dialogue_text = None, original_line_num = Some 3\<rparr>]"
proof (intro conjI impI)
  assume "paragraph_type p \<notin> {''Scene Heading'', ''Character'', ''Parenthetical'',
      ''Dialogue'', ''Action'', ''Transition''}"
  then show "loop_body n p s =
        s\<lparr>parsed_elements := parsed_elements s @
             [\<lparr>type = ''action'', text = Some (plain_text p), character_name = None,
               dialogue_text = None, original_line_num = Some n\<rparr>],
          current_character_element := None\<rparr>"
    by (rule loop_body_unrecognized)
next
  show "loop_body n \<lparr>paragraph_type = ''Shot'', plain_text = t\<rparr> s =
        s\<lparr>parsed_elements := parsed_elements s @
             [\<lparr>type = ''action'', text = Some t, character_name = None,
               dialogue_text = None, original_line_num = Some n\<rparr>],
          current_character_element := None\<rparr>"
    by (simp add: loop_body_unrecognized)
next
  assume h: "i < length paragraphs
        \<and> paragraph_type (paragraphs ! i) \<notin> {''Scene Heading'', ''Character'',
              ''Parenthetical'', ''Dialogue'', ''Action'', ''Transition''}"
  then have i: "i < length paragraphs"
    and k: "paragraph_type (paragraphs ! i) \<notin> {''Scene Heading'', ''Character'',
              ''Parenthetical'', ''Dialogue'', ''Action'', ''Transition''}"
    by simp_all
  show "fst (parse_file self script_path (Returns_screenplay paragraphs)) ! i =
          \<lparr>type = ''action'', text = Some (plain_text (paragraphs ! i)), character_name = None,
            dialogue_text = None, original_line_num = Some (i + 1)\<rparr>"
    by (simp only: parse_file_nth [OF i] emitted_unrecognized [OF k])
  show "current_character_element
            (snd (parse_file self script_path (Returns_screenplay (take (Suc i) paragraphs))))
            = None"
    by (simp add: parse_file_take_Suc [OF i] loop_body_unrecognized [OF k])
next
  show "parse_file self script_path (Returns_screenplay
          [\<lparr>paragraph_type = ''Shot'', plain_text = t\<rparr>]) =
       ([\<lparr>type = ''action'', text = Some t, character_name = None,
           dialogue_text = None, original_line_num = Some 1\<rparr>],
        self\<lparr>parsed_elements :=
               [\<lparr>type = ''action'', text = Some t, character_name = None,
                  dialogue_text = None, original_line_num = Some 1\<rparr>],
             current_character_element := None\<rparr>)"
    by (simp add: parse_file_screenplay loop_body_unrecognized)
next
  show "fst (parse_file self script_path (Returns_screenplay
          [\<lparr>paragraph_type = ''Character'', plain_text = ''BOB''\<rparr>,
           \<lparr>paragraph_type = ''Shot'', plain_text = ''CLOSE ON BOB''\<rparr>,
           \<lparr>paragraph_type = ''Dialogue'', plain_text = ''Hi.''\<rparr>])) =
       [\<lparr>type = ''character'', text = None, character_name = Some ''BOB'',
          dialogue_text = None, original_line_num = Some 1\<rparr>,
        \<lparr>type = ''action'', text = Some ''CLOSE ON BOB'', character_name = None,
          dialogue_text = None, original_line_num = Some 2\<rparr>,
        \<lparr>type = ''action'', text = Some ''Hi.'', character_name = None,
          dialogue_text = None, original_line_num = Some 3\<rparr>]"
    by (simp add: parse_file_screenplay loop_body_Character loop_body_unrecognized
        loop_body_Dialogue_None)
qed

theorem unrecognized_kind_is_action_witness:
  "paragraph_type \<lparr>paragraph_type = ''General'', plain_text = ''FADE IN''\<rparr>
      \<notin> {''Scene Heading'', ''Character'', ''Parenthetical'', ''Dialogue'',
        ''Action'', ''Transition''}
   \<and> loop_body 4 \<lparr>paragraph_type = ''General'', plain_text = ''FADE IN''\<rparr>
        \<lparr>parsed_elements = [], current_character_element =
            Some \<lparr>type = ''character'', text = None, character_name = Some ''BOB'',
                   dialogue_text = None, original_line_num = Some 3\<rparr>, stdout = []\<rparr> =
       \<lparr>parsed_elements =
          [\<lparr>type = ''action'', text = Some ''FADE IN'', character_name = None,
            dialogue_text = None, original_line_num = Some 4\<rparr>],
        current_character_element = None, stdout = []\<rparr>
   \<and> (1::nat) < length [\<lparr>paragraph_type = ''Character'', plain_text = ''BOB''\<rparr>,
                        \<lparr>paragraph_type = ''General'', plain_text = ''FADE IN''\<rparr>]
   \<and> paragraph_type ([\<lparr>paragraph_type = ''Character'', plain_text = ''BOB''\<rparr>,
                        \<lparr>paragraph_type = ''General'', plain_text = ''FADE IN''\<rparr>] ! 1)
      \<notin> {''Scene Heading'', ''Character'', ''Parenthetical'', ''Dialogue'',
        ''Action'', ''Transition''}
   \<and> fst (parse_file ScriptParser_init ''a.fdx'' (Returns_screenplay
          [\<lparr>paragraph_type = ''Character'', plain_text = ''BOB''\<rparr>,
           \<lparr>paragraph_type = ''General'', plain_text = ''FADE IN''\<rparr>])) ! 1 =
       \<lparr>type = ''action'', text = Some ''FADE IN'', character_name = None,
         dialogue_text = None, original_line_num = Some 2\<rparr>
   \<and> current_character_element (snd (parse_file ScriptParser_init ''a.fdx'' (Returns_screenplay
          [\<lparr>paragraph_type = ''Character'', plain_text = ''BOB''\<rparr>,
           \<lparr>paragraph_type = ''General'', plain_text = ''FADE IN''\<rparr>]))) = None"
  using unrecognized_kind_is_action
      [of "\<lparr>paragraph_type = ''General'', plain_text = ''FADE IN''\<rparr>" 4
        "\<lparr>parsed_elements = [], current_character_element =
            Some \<lparr>type = ''character'', text = None, character_name = Some ''BOB'',
                   dialogue_text = None, original_line_num = Some 3\<rparr>, stdout = []\<rparr>"
        "''x''" 1
        "[\<lparr>paragraph_type = ''Character'', plain_text = ''BOB''\<rparr>,
           \<lparr>paragraph_type = ''General'', plain_text = ''FADE IN''\<rparr>]"
        ScriptParser_init "''a.fdx''"]
  by simp

section \<open>The current character\<close>

text \<open>
  Claim C7, as stated, fails: a paragraph of kind \<open>Character\<close> is not of kind
  \<open>Parenthetical\<close>, and after it the current character is the new element, not empty.
\<close>

theorem state_after_character_counterexample:
  "paragraph_type \<lparr>paragraph_type = ''Character'', plain_text = ''BOB''\<rparr> \<noteq> ''Parenthetical''
   \<and> current_character_element
         (loop_body 1 \<lparr>paragraph_type = ''Character'', plain_text = ''BOB''\<rparr> ScriptParser_init)
       = Some \<lparr>type = ''character'', text = None, character_name = Some ''BOB'',
               dialogue_text = None, original_line_num = Some 1\<rparr>
   \<and> current_character_element
         (loop_body 1 \<lparr>paragraph_type = ''Character'', plain_text = ''BOB''\<rparr> ScriptParser_init)
       \<noteq> None"
  by (simp add: loop_body_Character)

text \<open>
  Claim C7, amended. The loop starts from empty \<open>parsed_elements\<close> and an empty current
  character, whatever the object held before. After a paragraph whose kind is neither
  \<open>Parenthetical\<close> nor \<open>Character\<close> the current character is empty; after a \<open>Character\<close>
  paragraph it is the \<open>character\<close> element just appended; a \<open>Parenthetical\<close> paragraph
  leaves it as it was. At the end of a parse the current character, when set, is an element
  of type \<open>character\<close> in the result that only \<open>parenthetical\<close> elements follow: the most
  recent character element.
\<close>

theorem current_character_state:
  "snd (parse_file self script_path (Returns_screenplay paragraphs)) =
     paragraph_loop 0 paragraphs
       (self\<lparr>parsed_elements := [], current_character_element := None\<rparr>)
   \<and> (paragraph_type p \<notin> {''Parenthetical'', ''Character''} \<longrightarrow>
        current_character_element (loop_body n p s) = None)
   \<and> (paragraph_type p = ''Character'' \<longrightarrow>
        current_character_element (loop_body n p s) =
          Some \<lparr>type = ''character'', text = None, character_name = Some (plain_text p),
                 dialogue_text = None, original_line_num = Some n\<rparr>
        \<and> last (parsed_elements (loop_body n p s)) =
          \<lparr>type = ''character'', text = None, character_name = Some (plain_text p),
                 dialogue_text = None, original_line_num = Some n\<rparr>)
   \<and> (paragraph_type p = ''Parenthetical'' \<longrightarrow>
        current_character_element (loop_body n p s) = current_character_element s)
   \<and> (current_character_element (snd (parse_file self script_path (Returns_screenplay paragraphs)))
         = Some c \<longrightarrow>
        type c = ''character''
        \<and> (\<exists>pre ps. fst (parse_file self script_path (Returns_screenplay paragraphs))
                        = pre @ c # ps
              \<and> (\<forall>e\<in>set ps. type e = ''parenthetical'')))"
proof (intro conjI impI)
  show "snd (parse_file self script_path (Returns_screenplay paragraphs)) =
     paragraph_loop 0 paragraphs
       (self\<lparr>parsed_elements := [], current_character_element := None\<rparr>)"
    by (simp add: parse_file_screenplay Let_def)
next
  assume "paragraph_type p \<notin> {''Parenthetical'', ''Character''}"
  then show "current_character_element (loop_body n p s) = None"
    by (simp add: loop_body_def Let_def split: option.split)
next
  assume "paragraph_type p = ''Character''"
  then show "current_character_element (loop_body n p s) =
          Some \<lparr>type = ''character'', text = None, character_name = Some (plain_text p),
                 dialogue_text = None, original_line_num = Some n\<rparr>"
    and "last (parsed_elements (loop_body n p s)) =
          \<lparr>type = ''character'', text = None, character_name = Some (plain_text p),
                 dialogue_text = None, original_line_num = Some n\<rparr>"
    by (simp_all add: loop_body_Character)
next
  assume "paragraph_type p = ''Parenthetical''"
  then show "current_character_element (loop_body n p s) = current_character_element s"
    by (simp add: loop_body_Parenthetical)
next
  assume c: "current_character_element
      (snd (parse_file self script_path (Returns_screenplay paragraphs))) = Some c"
  with parse_file_tracks [of self script_path paragraphs]
  show "type c = ''character''"
    and "\<exists>pre ps. fst (parse_file self script_path (Returns_screenplay paragraphs)) = pre @ c # ps
              \<and> (\<forall>e\<in>set ps. type e = ''parenthetical'')"
    unfolding tracks_def by blast+
qed

theorem current_character_state_witness:
  "paragraph_type \<lparr>paragraph_type = ''Action'', plain_text = ''Rain.''\<rparr>
      \<notin> {''Parenthetical'', ''Character''}
   \<and> current_character_element
        (loop_body 2 \<lparr>paragraph_type = ''Action'', plain_text = ''Rain.''\<rparr>
          \<lparr>parsed_elements = [], current_character_element =
              Some \<lparr>type = ''character'', text = None, character_name = Some ''BOB'',
                     dialogue_text = None, original_line_num = Some 1\<rparr>, stdout = []\<rparr>) = None
   \<and> paragraph_type \<lparr>paragraph_type = ''Character'', plain_text = ''BOB''\<rparr> = ''Character''
   \<and> current_character_element
        (loop_body 1 \<lparr>paragraph_type = ''Character'', plain_text = ''BOB''\<rparr> ScriptParser_init) =
       Some \<lparr>type = ''character'', text = None, character_name = Some ''BOB'',
              dialogue_text = None, original_line_num = Some 1\<rparr>
   \<and> paragraph_type \<lparr>paragraph_type = ''Parenthetical'', plain_text = ''(smiling)''\<rparr>
       = ''Parenthetical''
   \<and> current_character_element
        (loop_body 2 \<lparr>paragraph_type = ''Parenthetical'', plain_text = ''(smiling)''\<rparr>
          \<lparr>parsed_elements = [], current_character_element =
              Some \<lparr>type = ''character'', text = None, character_name = Some ''BOB'',
                     dialogue_text = None, original_line_num = Some 1\<rparr>, stdout = []\<rparr>) =
       Some \<lparr>type = ''character'', text = None, character_name = Some ''BOB'',
              dialogue_text = None, original_line_num = Some 1\<rparr>
   \<and> current_character_element (snd (parse_file ScriptParser_init ''a.fdx'' (Returns_screenplay
          [\<lparr>paragraph_type = ''Character'', plain_text = ''BOB''\<rparr>,
           \<lparr>paragraph_type = ''Parenthetical'', plain_text = ''(smiling)''\<rparr>]))) =
       Some \<lparr>type = ''character'', text = None, character_name = Some ''BOB'',
              dialogue_text = None, original_line_num = Some 1\<rparr>
   \<and> (\<exists>pre ps. fst (parse_file ScriptParser_init ''a.fdx'' (Returns_screenplay
          [\<lparr>paragraph_type = ''Character'', plain_text = ''BOB''\<rparr>,
           \<lparr>paragraph_type = ''Parenthetical'', plain_text = ''(smiling)''\<rparr>])) =
          pre @ \<lparr>type = ''character'', text = None, character_name = Some ''BOB'',
              dialogue_text = None, original_line_num = Some 1\<rparr> # ps
        \<and> (\<forall>e\<in>set ps. type e = ''parenthetical''))"
proof -
  let ?bob = "\<lparr>type = ''character'', text = None, character_name = Some ''BOB'',
              dialogue_text = None, original_line_num = Some (1::nat)\<rparr>"
  let ?s = "\<lparr>parsed_elements = [], current_character_element = Some ?bob, stdout = []\<rparr>"
  let ?doc = "[\<lparr>paragraph_type = ''Character'', plain_text = ''BOB''\<rparr>,
           \<lparr>paragraph_type = ''Parenthetical'', plain_text = ''(smiling)''\<rparr>]"
  have final: "current_character_element
      (snd (parse_file ScriptParser_init ''a.fdx'' (Returns_screenplay ?doc))) = Some ?bob"
    by (simp add: parse_file_screenplay loop_body_Character loop_body_Parenthetical)
  note a = current_character_state
      [where p = "\<lparr>paragraph_type = ''Action'', plain_text = ''Rain.''\<rparr>" and n = 2 and s = ?s
         and self = ScriptParser_init and script_path = "''a.fdx''" and paragraphs = ?doc
         and c = ?bob]
  note b = current_character_state
      [where p = "\<lparr>paragraph_type = ''Character'', plain_text = ''BOB''\<rparr>" and n = 1
         and s = ScriptParser_init]
  note c = current_character_state
      [where p = "\<lparr>paragraph_type = ''Parenthetical'', plain_text = ''(smiling)''\<rparr>" and n = 2
         and s = ?s]
  from a final have
    "current_character_element (loop_body 2
        \<lparr>paragraph_type = ''Action'', plain_text = ''Rain.''\<rparr> ?s) = None"
    "\<exists>pre ps. fst (parse_file ScriptParser_init ''a.fdx'' (Returns_screenplay ?doc)) = pre @ ?bob # ps
        \<and> (\<forall>e\<in>set ps. type e = ''parenthetical'')"
    by simp_all
  moreover from b have "current_character_element
      (loop_body 1 \<lparr>paragraph_type = ''Character'', plain_text = ''BOB''\<rparr> ScriptParser_init)
        = Some ?bob"
    by simp
  moreover from c have "current_character_element (loop_body 2
        \<lparr>paragraph_type = ''Parenthetical'', plain_text = ''(smiling)''\<rparr> ?s) = Some ?bob"
    by simp
  ultimately show ?thesis
    using final by simp
qed

section \<open>Failures of reading the document\<close>

text \<open>
  Claim C4, as stated, fails where it says that no partial state is observable on failure:
  when an exception arrives after the loop has processed a Character paragraph, the call
  returns the empty list, but the object still holds the element of that paragraph in
  \<open>parsed_elements\<close> and as the current character.
\<close>

theorem partial_state_after_failure_counterexample:
  "fst (parse_file ScriptParser_init ''a.fdx''
          (Returns_screenplay_raising [\<lparr>paragraph_type = ''Character'', plain_text = ''BOB''\<rparr>]
             (Exception ''plain_text''))) = []
   \<and> parsed_elements (snd (parse_file ScriptParser_init ''a.fdx''
          (Returns_screenplay_raising [\<lparr>paragraph_type = ''Character'', plain_text = ''BOB''\<rparr>]
             (Exception ''plain_text'')))) =
       [\<lparr>type = ''character'', text = None, character_name = Some ''BOB'',
          dialogue_text = None, original_line_num = Some 1\<rparr>]
   \<and> current_character_element (snd (parse_file ScriptParser_init ''a.fdx''
          (Returns_screenplay_raising [\<lparr>paragraph_type = ''Character'', plain_text = ''BOB''\<rparr>]
             (Exception ''plain_text'')))) =
       Some \<lparr>type = ''character'', text = None, character_name = Some ''BOB'',
          dialogue_text = None, original_line_num = Some 1\<rparr>"
  by (simp add: parse_file_def except_clauses_def loop_body_Character)

text \<open>
  Claim C4, amended. Whatever fails inside the \<open>try\<close> block, \<open>parse_file\<close> returns the
  empty list (no exception is left to the caller). When \<open>read_fdx\<close> itself raises
  \<open>FileNotFoundError\<close>, raises another exception, returns \<open>None\<close> or returns an object
  without \<open>paragraphs\<close>, the object is left with empty \<open>parsed_elements\<close> and no current
  character whatever it held before, and the diagnostic of that outcome is printed; the four
  outputs are pairwise different, whatever the path, the exception text and the attribute
  listing. When the exception is raised while the paragraphs are read, the output is that of
  the paragraphs processed so far followed by the not-found diagnostic for a
  \<open>FileNotFoundError\<close> and by the general diagnostic for any other exception.
\<close>

theorem parse_file_failure_diagnostics:
  "fst (parse_file self script_path (Raises e)) = []
   \<and> fst (parse_file self script_path Returns_None) = []
   \<and> fst (parse_file self script_path (Returns_without_paragraphs attributes)) = []
   \<and> fst (parse_file self script_path (Returns_screenplay_raising paragraphs e)) = []
   \<and> parse_file self script_path (Raises FileNotFoundError) =
     ([], self\<lparr>parsed_elements := [], current_character_element := None,
            stdout := stdout self @ [''Error: Script file not found at '' @ script_path]\<rparr>)
   \<and> parse_file self script_path (Raises (Exception str_e)) =
     ([], self\<lparr>parsed_elements := [], current_character_element := None,
            stdout := stdout self @
              [''An error occurred during FDX script parsing: '' @ str_e]\<rparr>)
   \<and> parse_file self script_path Returns_None =
     ([], self\<lparr>parsed_elements := [], current_character_element := None,
            stdout := stdout self @
              [''Error: read_fdx returned None. Cannot proceed with parsing.'']\<rparr>)
   \<and> parse_file self script_path (Returns_without_paragraphs attributes) =
     ([], self\<lparr>parsed_elements := [], current_character_element := None,
            stdout := stdout self @
              [''DEBUG: WARNING: 'screenplay' object DOES NOT have 'paragraphs' attribute.'',
               ''DEBUG: Available attributes on 'screenplay' object: '' @ attributes]\<rparr>)
   \<and> distinct
        [stdout (snd (parse_file self script_path (Raises FileNotFoundError))),
         stdout (snd (parse_file self script_path (Raises (Exception str_e)))),
         stdout (snd (parse_file self script_path Returns_None)),
         stdout (snd (parse_file self script_path (Returns_without_paragraphs attributes)))]
   \<and> stdout (snd (parse_file self script_path
          (Returns_screenplay_raising paragraphs FileNotFoundError))) =
       stdout (snd (parse_file self script_path (Returns_screenplay paragraphs)))
         @ [''Error: Script file not found at '' @ script_path]
   \<and> stdout (snd (parse_file self script_path
          (Returns_screenplay_raising paragraphs (Exception str_e)))) =
       stdout (snd (parse_file self script_path (Returns_screenplay paragraphs)))
         @ [''An error occurred during FDX script parsing: '' @ str_e]"
  by (cases e) (simp_all add: parse_file_def except_clauses_def Let_def)

section \<open>Length of the result and line numbers\<close>

text \<open>
  Claim C5. For every decoded document the returned list is at most as long as the
  paragraph sequence; and an iteration appends exactly one element to \<open>parsed_elements\<close>
  whatever the paragraph's kind, so an unrecognized kind adds no extra element.
\<close>

theorem parse_file_length_le:
  "length (fst (parse_file self script_path (Returns_screenplay paragraphs))) \<le> length paragraphs
   \<and> length (parsed_elements (loop_body n p s)) = length (parsed_elements s) + 1"
  by (simp add: parse_file_screenplay Let_def paragraph_loop_length loop_body_parsed_elements)

text \<open>
  Claim C9. For every decoded document the returned list has exactly as many elements as
  the document has paragraphs.
\<close>

theorem parse_file_length_eq:
  "length (fst (parse_file self script_path (Returns_screenplay paragraphs))) = length paragraphs"
  by (simp add: parse_file_screenplay Let_def paragraph_loop_length)

text \<open>
  Claim C10. For every decoded document, the element at position \<open>i\<close> of the returned list
  (counting from 0) has \<open>original_line_num = i + 1\<close>: the 1-based index of its paragraph.
\<close>

theorem original_line_num_is_paragraph_index:
  "i < length paragraphs \<Longrightarrow>
     original_line_num (fst (parse_file self script_path (Returns_screenplay paragraphs)) ! i)
       = Some (i + 1)"
proof -
  assume i: "i < length paragraphs"
  let ?out = "fst (parse_file self script_path (Returns_screenplay paragraphs))"
  have len: "length ?out = length paragraphs"
    by (simp add: parse_file_screenplay Let_def paragraph_loop_length)
  have "map original_line_num ?out = map Some [Suc 0 ..< Suc 0 + length paragraphs]"
    by (simp add: parse_file_screenplay Let_def paragraph_loop_line_nums)
  then have "map original_line_num ?out ! i = map Some [Suc 0 ..< Suc 0 + length paragraphs] ! i"
    by simp
  moreover have "map original_line_num ?out ! i = original_line_num (?out ! i)"
    using i len by (simp only: nth_map)
  moreover have "map Some [Suc 0 ..< Suc 0 + length paragraphs] ! i = Some (i + 1)"
    using i by (simp del: upt_Suc)
  ultimately show ?thesis by simp
qed

theorem original_line_num_is_paragraph_index_witness:
  "(1::nat) < length [\<lparr>paragraph_type = ''Action'', plain_text = ''Rain.''\<rparr>,
                      \<lparr>paragraph_type = ''Shot'', plain_text = ''CLOSE ON BOB''\<rparr>]
   \<and> original_line_num (fst (parse_file ScriptParser_init ''a.fdx'' (Returns_screenplay
         [\<lparr>paragraph_type = ''Action'', plain_text = ''Rain.''\<rparr>,
          \<lparr>paragraph_type = ''Shot'', plain_text = ''CLOSE ON BOB''\<rparr>])) ! 1) = Some 2"
  using original_line_num_is_paragraph_index
      [of 1 "[\<lparr>paragraph_type = ''Action'', plain_text = ''Rain.''\<rparr>,
              \<lparr>paragraph_type = ''Shot'', plain_text = ''CLOSE ON BOB''\<rparr>]"
          ScriptParser_init "''a.fdx''"]
  by simp

end
